theory Spec2Isabelle
  imports Complex_Main "HOL-Library.AList"
begin

section \<open>The JavaScript host: time values and the calendar\<close>

text \<open>
  A valid JavaScript \<open>Date\<close> holds a time value: the milliseconds since
  1970-01-01T00:00Z, an \<open>int\<close> here. The getters \<open>getDate\<close>, \<open>getMonth\<close> and
  \<open>getFullYear\<close> and the constructor \<open>new Date(year, month, day)\<close> work in local time;
  the local zone is the parameter \<open>tz\<close>, the milliseconds that local time is ahead of
  UTC (a fixed offset: \<open>-10800000\<close> for UTC-3, no daylight saving).

  The calendar is the proleptic Gregorian one, counted in days since 1970-01-01.
  \<open>civil_from_days\<close> peels off 400-year eras, centuries, 4-year groups and years of a
  year that starts on March 1st; \<open>days_from_civil\<close> is the count the other way.
\<close>

definition msPerDay :: int where
  "msPerDay = 86400000"

text \<open>Year of the era (0..399) and day of the March-based year (0..365) of a day of the era.\<close>

definition year_day_of_era :: "int \<Rightarrow> int \<times> int" where
  "year_day_of_era doe =
    (let c = min 3 (doe div 36524);
         r1 = doe - c * 36524;
         q = r1 div 1461;
         r2 = r1 mod 1461;
         yy = min 3 (r2 div 365)
     in (c * 100 + q * 4 + yy, r2 - yy * 365))"

text \<open>Month (1..12) and day of the month of a day of the March-based year.\<close>

definition month_day_of_year :: "int \<Rightarrow> int \<times> int" where
  "month_day_of_year doy =
    (let mp = (5 * doy + 2) div 153;
         d = doy - (153 * mp + 2) div 5 + 1;
         m = (if mp < 10 then mp + 3 else mp - 9)
     in (m, d))"

definition civil_from_days :: "int \<Rightarrow> int \<times> int \<times> int" where
  "civil_from_days n =
    (let z = n + 719468;
         era = z div 146097;
         (yoe, doy) = year_day_of_era (z mod 146097);
         (m, d) = month_day_of_year doy;
         y = era * 400 + yoe
     in (if m \<le> 2 then y + 1 else y, m, d))"

text \<open>The day of the March-based year of day \<open>d\<close> of month \<open>m\<close>.\<close>

definition doyOf :: "int \<Rightarrow> int \<Rightarrow> int" where
  "doyOf m d = (153 * (if m > 2 then m - 3 else m + 9) + 2) div 5 + d - 1"

definition days_from_civil :: "int \<Rightarrow> int \<Rightarrow> int \<Rightarrow> int" where
  "days_from_civil y0 m d =
    (let y = (if m \<le> 2 then y0 - 1 else y0)
     in 365 * y + y div 4 - y div 100 + y div 400 + doyOf m d - 719468)"




definition Day :: "int \<Rightarrow> int" where
  "Day t = t div msPerDay"

definition LocalTime :: "int \<Rightarrow> int \<Rightarrow> int" where
  "LocalTime tz t = t + tz"

definition getFullYear :: "int \<Rightarrow> int \<Rightarrow> int" where
  "getFullYear tz t = fst (civil_from_days (Day (LocalTime tz t)))"

text \<open>\<open>getMonth\<close> is 0-based, as in JavaScript.\<close>

definition getMonth :: "int \<Rightarrow> int \<Rightarrow> int" where
  "getMonth tz t = fst (snd (civil_from_days (Day (LocalTime tz t)))) - 1"

definition getDate :: "int \<Rightarrow> int \<Rightarrow> int" where
  "getDate tz t = snd (snd (civil_from_days (Day (LocalTime tz t))))"

text \<open>
  \<open>new Date(year, month, day)\<close>: local midnight of the day, with the constructor's
  rules: a year from 0 to 99 means 1900 + year, a month outside 0..11 carries into the
  year, and a day outside the month rolls over into the neighbouring months.
  Time values are not bounded here: the limit of 8.64e15 ms (some 273,000 years either
  side of 1970), past which JavaScript makes a date invalid, is left out.
\<close>

definition MakeDay :: "int \<Rightarrow> int \<Rightarrow> int \<Rightarrow> int" where
  "MakeDay year month dt =
    days_from_civil (year + month div 12) (month mod 12 + 1) 1 + dt - 1"

definition newDate :: "int \<Rightarrow> int \<Rightarrow> int \<Rightarrow> int \<Rightarrow> int" where
  "newDate tz year month dt =
    (let yr = (if 0 \<le> year \<and> year \<le> 99 then 1900 + year else year)
     in MakeDay yr month dt * msPerDay - tz)"

text \<open>
  A date-only ISO string \<open>YYYY-MM-DD\<close> is its three numbers. \<open>toISODate\<close> is
  \<open>toISOString().split('T')[0]\<close>, the UTC calendar day of a time value.
  \<open>parseISODate\<close> is \<open>new Date(dateStr)\<close> on such a string: midnight UTC of the day,
  or an invalid date (\<open>None\<close>) when the month is not 1..12 or the day not 1..31
  (the range check of V8; engines that also reject a day past the end of its month
  differ only on strings that \<open>toISOString\<close> never produces).
\<close>

type_synonym isodate = "int \<times> int \<times> int"

definition toISODate :: "int \<Rightarrow> isodate" where
  "toISODate t = civil_from_days (Day t)"

definition parseISODate :: "isodate \<Rightarrow> int option" where
  "parseISODate s =
    (case s of (y, m, d) \<Rightarrow>
       if 1 \<le> m \<and> m \<le> 12 \<and> 1 \<le> d \<and> d \<le> 31
       then Some (days_from_civil y m d * msPerDay)
       else None)"

section \<open>The JavaScript host: strings and numbers\<close>

text \<open>
  Strings are byte strings (a letter outside ASCII is its UTF-8 bytes); a JavaScript
  number is a rational here, so sums are exact and \<open>NaN\<close> is \<open>None\<close>. The infinities
  are not numbers of the model: \<open>parseFloat\<close> reads \<open>Infinity\<close> as \<open>NaN\<close>.
  White space is the ASCII white space.
\<close>

definition isWhiteSpace :: "char \<Rightarrow> bool" where
  "isWhiteSpace c = (c \<in> {CHR '' '', CHR 0x09, CHR 0x0A, CHR 0x0B, CHR 0x0C, CHR 0x0D})"

definition trim :: "string \<Rightarrow> string" where
  "trim s = rev (dropWhile isWhiteSpace (rev (dropWhile isWhiteSpace s)))"

definition isDigit :: "char \<Rightarrow> bool" where
  "isDigit c = (48 \<le> (of_char c :: nat) \<and> (of_char c :: nat) \<le> 57)"

definition digitVal :: "char \<Rightarrow> nat" where
  "digitVal c = of_char c - 48"

definition digitsVal :: "string \<Rightarrow> nat" where
  "digitsVal ds = foldl (\<lambda>a c. 10 * a + digitVal c) 0 ds"

definition isHexDigit :: "char \<Rightarrow> bool" where
  "isHexDigit c =
    (isDigit c \<or> (65 \<le> (of_char c :: nat) \<and> (of_char c :: nat) \<le> 70)
       \<or> (97 \<le> (of_char c :: nat) \<and> (of_char c :: nat) \<le> 102))"

definition hexVal :: "char \<Rightarrow> nat" where
  "hexVal c =
    (if isDigit c then of_char c - 48
     else if (of_char c :: nat) \<le> 70 then of_char c - 55
     else of_char c - 87)"

definition hexDigitsVal :: "string \<Rightarrow> nat" where
  "hexDigitsVal ds = foldl (\<lambda>a c. 16 * a + hexVal c) 0 ds"

text \<open>An optional sign in front of a string: the sign and the rest.\<close>

definition takeSign :: "string \<Rightarrow> int \<times> string" where
  "takeSign s =
    (case s of
       [] \<Rightarrow> (1, s)
     | c # r \<Rightarrow> if c = CHR ''-'' then (-1, r) else if c = CHR ''+'' then (1, r) else (1, s))"

text \<open>
  \<open>parseInt(s)\<close> with no radix: leading white space, a sign, \<open>0x\<close> for hexadecimal,
  then the longest run of digits; \<open>NaN\<close> when there is none.
\<close>

definition parseInt :: "string \<Rightarrow> int option" where
  "parseInt s =
    (case takeSign (dropWhile isWhiteSpace s) of (sign, s2) \<Rightarrow>
       if take 2 s2 = ''0x'' \<or> take 2 s2 = ''0X''
       then (let ds = takeWhile isHexDigit (drop 2 s2)
             in if ds = [] then None else Some (sign * int (hexDigitsVal ds)))
       else (let ds = takeWhile isDigit s2
             in if ds = [] then None else Some (sign * int (digitsVal ds))))"

text \<open>The exponent part \<open>e\<close>, sign, digits of a decimal literal: 0 when there is none.\<close>

definition exponentPart :: "string \<Rightarrow> int" where
  "exponentPart s =
    (case s of
       [] \<Rightarrow> 0
     | c # r \<Rightarrow>
         if c = CHR ''e'' \<or> c = CHR ''E''
         then (case takeSign r of (sign, r2) \<Rightarrow>
                 let ds = takeWhile isDigit r2
                 in if ds = [] then 0 else sign * int (digitsVal ds))
         else 0)"

definition scale10 :: "rat \<Rightarrow> int \<Rightarrow> rat" where
  "scale10 x e = (if 0 \<le> e then x * 10 ^ nat e else x / 10 ^ nat (- e))"

text \<open>
  \<open>parseFloat(s)\<close>: leading white space, a sign, the longest prefix that is a decimal
  literal (digits, a point, digits, an exponent); \<open>NaN\<close> when there is no digit before
  or after the point.
\<close>

definition parseFloat :: "string \<Rightarrow> rat option" where
  "parseFloat s =
    (case takeSign (dropWhile isWhiteSpace s) of (sign, s2) \<Rightarrow>
       let ip = takeWhile isDigit s2;
           s3 = dropWhile isDigit s2;
           hasPoint = (s3 \<noteq> [] \<and> take 1 s3 = ''.'');
           fp = (if hasPoint then takeWhile isDigit (drop 1 s3) else []);
           s4 = (if hasPoint then dropWhile isDigit (drop 1 s3) else s3);
           mantissa = of_nat (digitsVal ip) + of_nat (digitsVal fp) / 10 ^ length fp
       in if ip = [] \<and> fp = [] then None
          else Some (of_int sign * scale10 mantissa (exponentPart s4)))"

text \<open>\<open>Math.round\<close>: the nearest integer, a half rounding up.\<close>

definition Math_round :: "rat \<Rightarrow> int" where
  "Math_round x = \<lfloor>x + 1 / 2\<rfloor>"

text \<open>The decimal numeral of an integer, as \<open>toString\<close> and template strings print it.\<close>

fun natToString :: "nat \<Rightarrow> string" where
  "natToString n =
    (if n < 10 then [char_of (48 + n)]
     else natToString (n div 10) @ [char_of (48 + n mod 10)])"

definition intToString :: "int \<Rightarrow> string" where
  "intToString i = (if i < 0 then CHR ''-'' # natToString (nat (- i)) else natToString (nat i))"

definition padStart2 :: "string \<Rightarrow> string" where
  "padStart2 s = replicate (2 - length s) CHR ''0'' @ s"

fun splitOn :: "char \<Rightarrow> string \<Rightarrow> string list" where
  "splitOn c [] = [[]]"
| "splitOn c (x # xs) =
    (if x = c then [] # splitOn c xs
     else (case splitOn c xs of
             [] \<Rightarrow> [[x]]
           | p # ps \<Rightarrow> (x # p) # ps))"

section \<open>Sheet rows\<close>

text \<open>
  A cell of a decoded sheet row, as \<open>XLSX.utils.sheet_to_json\<close> hands it over: a number,
  a string, a boolean, a native date (valid with its time value, or invalid), or
  \<open>null\<close>. A row is an object: a list of fields with distinct names, looked up by name.
\<close>

datatype cell = CNull | CBool bool | CNum rat | CStr string | CDate "int option"

type_synonym row = "(string \<times> cell) list"

text \<open>
  What the host decides: the offset of local time, how \<open>new Date(string)\<close> reads a
  string that is not the date-only ISO form (\<open>None\<close>: an invalid date), and how
  \<open>String(v)\<close> prints a number, a boolean or a date.
\<close>

record host =
  tzOffset :: int
  dateParse :: "string \<Rightarrow> int option"
  String_of :: "cell \<Rightarrow> string"

text \<open>JavaScript truthiness of a cell.\<close>

definition truthy :: "cell \<Rightarrow> bool" where
  "truthy v =
    (case v of
       CNull \<Rightarrow> False
     | CBool b \<Rightarrow> b
     | CNum x \<Rightarrow> x \<noteq> 0
     | CStr s \<Rightarrow> s \<noteq> []
     | CDate d \<Rightarrow> True)"

text \<open>\<open>String(v || '').trim()\<close>.\<close>

definition textOf :: "host \<Rightarrow> cell \<Rightarrow> string" where
  "textOf h v =
    (if truthy v then trim (case v of CStr s \<Rightarrow> s | _ \<Rightarrow> String_of h v) else [])"

text \<open>
  \<open>parseFloat(v)\<close> of a cell: the cell is printed first, so a number is itself, a
  string is read by \<open>parseFloat\<close>, and \<open>null\<close>, booleans and dates give \<open>NaN\<close>.
\<close>

definition parseFloatCell :: "cell \<Rightarrow> rat option" where
  "parseFloatCell v =
    (case v of
       CNum x \<Rightarrow> Some x
     | CStr s \<Rightarrow> parseFloat s
     | _ \<Rightarrow> None)"

section \<open>ExcelFolderReader.getMonthFromDate\<close>

text \<open>The month names; the cedilla of the third is its two UTF-8 bytes.\<close>

definition monthNames :: "string list" where
  "monthNames =
    [''Janeiro'', ''Fevereiro'', ''Mar'' @ [CHR 0xC3, CHR 0xA7] @ ''o'', ''Abril'',
     ''Maio'', ''Junho'', ''Julho'', ''Agosto'', ''Setembro'', ''Outubro'',
     ''Novembro'', ''Dezembro'']"

text \<open>
  The classifier of the record pipeline, on a valid date. The index
  \<open>targetMonth - 1\<close> is always within the twelve names
  (\<open>getMonthFromDate_index\<close> below), so the read never yields \<open>undefined\<close>.
\<close>

definition getMonthFromDate :: "int \<Rightarrow> int \<Rightarrow> string" where
  "getMonthFromDate tz date =
    (let day = getDate tz date;
         month = getMonth tz date + 1;
         targetMonth =
           (if day \<ge> 26
            then (if month + 1 > 12 then 1 else month + 1)
            else month)
     in monthNames ! nat (targetMonth - 1))"

section \<open>CalculationsService.getWeekFromDate\<close>

text \<open>
  The week of a date-only ISO string within its 26-to-25 cycle. \<open>new Date(dateStr)\<close>
  is midnight UTC of the day, the getters then read it in local time, and the cycle
  start is local midnight of the 26th. An invalid date makes every step \<open>NaN\<close>, here
  \<open>None\<close>.
\<close>

definition getWeekFromDate :: "int \<Rightarrow> isodate \<Rightarrow> int option" where
  "getWeekFromDate tz dateStr =
    (case parseISODate dateStr of
       None \<Rightarrow> None
     | Some date \<Rightarrow>
         let day = getDate tz date;
             month = getMonth tz date + 1;
             year = getFullYear tz date;
             (cycleYear, cycleMonth) =
               (if day \<ge> 26 then (year, month)
                else if month - 1 < 1 then (year - 1, 12)
                else (year, month - 1));
             cycleStart = newDate tz cycleYear (cycleMonth - 1) 26;
             daysDiff = (date - cycleStart) div msPerDay;
             week = daysDiff div 7 + 1
         in Some (min (max week 1) 5))"

text \<open>
  The specification's words for the same: \<open>cycleStart\<close>, the 26th of the reference
  month when the day is 26 or later and of the previous month otherwise (the year rolls
  back at January), and \<open>weekOfCycle\<close>, the whole 7-day spans since the cycle start plus
  one, clamped to 1..5.
\<close>

definition cycleStart :: "int \<Rightarrow> int \<Rightarrow> int" where
  "cycleStart tz t =
    (if getDate tz t \<ge> 26 then newDate tz (getFullYear tz t) (getMonth tz t) 26
     else if getMonth tz t = 0 then newDate tz (getFullYear tz t - 1) 11 26
     else newDate tz (getFullYear tz t) (getMonth tz t - 1) 26)"

definition weekOfCycle :: "int \<Rightarrow> int \<Rightarrow> int" where
  "weekOfCycle tz t = max 1 (min 5 ((t - cycleStart tz t) div (7 * msPerDay) + 1))"

section \<open>ExcelProcessorService.getMonthFromDate\<close>

text \<open>
  The other month classifier of the repository, of the upload processor: it keys a
  date by the month in which its cycle starts, printed as \<open>MM/YYYY\<close>.
\<close>

definition ExcelProcessorService_getMonthFromDate :: "int \<Rightarrow> int \<Rightarrow> string" where
  "ExcelProcessorService_getMonthFromDate tz date =
    (let day = getDate tz date;
         month = getMonth tz date + 1;
         year = getFullYear tz date;
         (targetMonth, targetYear) =
           (if day \<ge> 26 then (month, year)
            else if month = 1 then (12, year - 1)
            else (month - 1, year))
     in padStart2 (intToString targetMonth) @ ''/'' @ intToString targetYear)"

section \<open>ExcelFolderReader: rows to records\<close>

fun findColumnValue :: "row \<Rightarrow> string list \<Rightarrow> cell" where
  "findColumnValue r [] = CNull"
| "findColumnValue r (nm # possibleNames) =
    (case map_of r nm of
       None \<Rightarrow> findColumnValue r possibleNames
     | Some v \<Rightarrow>
         if v \<noteq> CNull \<and> v \<noteq> CStr [] then v else findColumnValue r possibleNames)"

text \<open>
  \<open>parseExcelDate\<close>: \<open>None\<close> is \<open>null\<close>, \<open>Some None\<close> an invalid \<open>Date\<close> object and
  \<open>Some (Some t)\<close> the date with time value \<open>t\<close>. A \<open>NaN\<close> year is not below 100,
  so the two-digit adjustment leaves it alone.
\<close>

definition adjustYear :: "int \<Rightarrow> int" where
  "adjustYear year = (if year < 100 then year + (if year < 50 then 2000 else 1900) else year)"

definition parseSlashDate :: "int \<Rightarrow> string \<Rightarrow> int option" where
  "parseSlashDate tz dateValue =
    (if CHR ''/'' \<in> set dateValue
     then (case splitOn CHR ''/'' dateValue of
             [p0, p1, p2] \<Rightarrow>
               (case (parseInt p0, parseInt p1, parseInt p2) of
                  (Some day, Some m, Some y) \<Rightarrow> Some (newDate tz (adjustYear y) (m - 1) day)
                | _ \<Rightarrow> None)
           | _ \<Rightarrow> None)
     else None)"

definition excelEpoch :: "int \<Rightarrow> int" where
  "excelEpoch tz = newDate tz 1899 11 30"

text \<open>The \<open>Date\<close> constructor drops the fraction of a time value, towards zero.\<close>

definition ToInteger :: "rat \<Rightarrow> int" where
  "ToInteger x = (if 0 \<le> x then \<lfloor>x\<rfloor> else \<lceil>x\<rceil>)"

definition parseExcelDate :: "host \<Rightarrow> cell \<Rightarrow> int option option" where
  "parseExcelDate h dateValue =
    (case dateValue of
       CDate d \<Rightarrow> Some d
     | CStr s \<Rightarrow>
         (case parseSlashDate (tzOffset h) s of
            Some t \<Rightarrow> Some (Some t)
          | None \<Rightarrow>
              (case dateParse h s of
                 Some t \<Rightarrow> Some (Some t)
               | None \<Rightarrow> None))
     | CNum x \<Rightarrow>
         Some (Some (ToInteger (of_int (excelEpoch (tzOffset h)) + x * 24 * 60 * 60 * 1000)))
     | _ \<Rightarrow> None)"

record ExcelEmployeeRecord =
  date :: int
  refinery :: string
  points :: rat
  observations :: string
  month :: string
  week :: int

text \<open>
  \<open>parseExcelRow\<close>: \<open>None\<close> is \<open>null\<close>, the row is skipped. The field \<open>date\<close> holds the
  time value that the ISO string of the source spells. The week of a valid date is
  always a number (\<open>getWeekFromDate_toISODate\<close> below), so the last \<open>None\<close> is never
  taken. The employee name and the row index only feed the log.
\<close>

definition dateNames :: "string list" where
  "dateNames = [''Data'', ''data'', ''DATE'', ''Date'']"

definition pointsNames :: "string list" where
  "pointsNames = [''Pontos'', ''pontos'', ''PONTOS'', ''Points'']"

definition refineryNames :: "string list" where
  "refineryNames = [''Refinaria'', ''refinaria'', ''REFINARIA'', ''Refinery'']"

definition observationsNames :: "string list" where
  "observationsNames =
    [''Observa'' @ [CHR 0xC3, CHR 0xA7, CHR 0xC3, CHR 0xB5] @ ''es'',
     ''observacoes'', ''OBSERVACOES'', ''Observations'']"

definition parseExcelRow :: "host \<Rightarrow> row \<Rightarrow> ExcelEmployeeRecord option" where
  "parseExcelRow h r =
    (let dateValue = findColumnValue r dateNames;
         pointsValue = findColumnValue r pointsNames;
         refineryValue = findColumnValue r refineryNames;
         observationsValue = findColumnValue r observationsNames
     in if \<not> truthy dateValue then None
        else
          let pts = (case parseFloatCell pointsValue of None \<Rightarrow> 0 | Some p \<Rightarrow> p)
          in if pts \<le> 0 then None
             else
               (case parseExcelDate h dateValue of
                  None \<Rightarrow> None
                | Some None \<Rightarrow> None
                | Some (Some parsedDate) \<Rightarrow>
                    (case getWeekFromDate (tzOffset h) (toISODate parsedDate) of
                       None \<Rightarrow> None
                     | Some wk \<Rightarrow>
                         Some \<lparr>date = parsedDate,
                               refinery = textOf h refineryValue,
                               points = pts,
                               observations = textOf h observationsValue,
                               month = getMonthFromDate (tzOffset h) parsedDate,
                               week = wk\<rparr>)))"

text \<open>
  A field is absent from a row when none of its names is a key of the row with a value
  other than \<open>null\<close> and the empty string.
\<close>

definition absent :: "row \<Rightarrow> string list \<Rightarrow> bool" where
  "absent r names =
    list_all
      (\<lambda>nm. map_of r nm = None \<or> map_of r nm = Some CNull \<or> map_of r nm = Some (CStr []))
      names"

text \<open>
  A host for the examples: local time is UTC, \<open>new Date(string)\<close> understands no string
  and \<open>String(v)\<close> prints nothing.
\<close>

definition hostUTC :: host where
  "hostUTC = \<lparr>tzOffset = 0, dateParse = (\<lambda>_. None), String_of = (\<lambda>_. [])\<rparr>"

section \<open>ExcelFolderReader: files to aggregates\<close>

text \<open>
  The objects of the source with string keys (\<open>monthlyData\<close>, \<open>weeklyData\<close>,
  \<open>employees\<close>) are association lists in insertion order, with distinct keys.
  The two \<open>totalRecords\<close> and \<open>totalPoints\<close> of the source are told apart here: the
  fields of \<open>statistics\<close> are \<open>folderTotalRecords\<close> and \<open>folderTotalPoints\<close>; the
  fields of a bucket are \<open>bucketPoints\<close> and \<open>bucketRecords\<close>.
\<close>

record Bucket =
  bucketPoints :: rat
  bucketRecords :: nat

record ExcelEmployeeData =
  name :: string
  totalPoints :: rat
  totalRecords :: nat
  records :: "ExcelEmployeeRecord list"
  monthlyData :: "(string \<times> Bucket) list"
  weeklyData :: "(string \<times> Bucket) list"

record Statistics =
  totalFiles :: nat
  totalEmployees :: nat
  folderTotalRecords :: nat
  folderTotalPoints :: rat
  totalProfit :: rat

record ExcelFolderData =
  employees :: "(string \<times> ExcelEmployeeData) list"
  statistics :: Statistics
  lastProcessed :: int

definition POINT_VALUE :: rat where
  "POINT_VALUE = 325 / 100"

definition CACHE_DURATION :: int where
  "CACHE_DURATION = 2 * 60 * 1000"

text \<open>
  \<open>if (!buckets[key]) buckets[key] = {points: 0, records: 0}\<close>, then the two
  additions on the bucket in place.
\<close>

definition addToBucket ::
  "string \<Rightarrow> rat \<Rightarrow> nat \<Rightarrow> (string \<times> Bucket) list \<Rightarrow> (string \<times> Bucket) list" where
  "addToBucket key p n buckets =
    (let created =
           (if map_of buckets key = None
            then AList.update key \<lparr>bucketPoints = 0, bucketRecords = 0\<rparr> buckets
            else buckets)
     in AList.map_entry key
          (\<lambda>b. b\<lparr>bucketPoints := bucketPoints b + p, bucketRecords := bucketRecords b + n\<rparr>)
          created)"

definition weekKey :: "int \<Rightarrow> string" where
  "weekKey wk = ''Semana '' @ intToString wk"

text \<open>The body of the row loop of \<open>processExcelFile\<close> for a row that gave a record.\<close>

definition addRecord :: "ExcelEmployeeData \<Rightarrow> ExcelEmployeeRecord \<Rightarrow> ExcelEmployeeData" where
  "addRecord employeeData rc =
    employeeData
      \<lparr>records := records employeeData @ [rc],
       totalPoints := totalPoints employeeData + points rc,
       totalRecords := totalRecords employeeData + 1,
       monthlyData := addToBucket (month rc) (points rc) 1 (monthlyData employeeData),
       weeklyData := addToBucket (weekKey (week rc)) (points rc) 1 (weeklyData employeeData)\<rparr>"

definition toLowerASCII :: "char \<Rightarrow> char" where
  "toLowerASCII c =
    (if 65 \<le> (of_char c :: nat) \<and> (of_char c :: nat) \<le> 90
     then char_of ((of_char c :: nat) + 32) else c)"

definition endsWithCI :: "string \<Rightarrow> string \<Rightarrow> bool" where
  "endsWithCI s suffix =
    (length suffix \<le> length s
     \<and> map toLowerASCII (drop (length s - length suffix) s) = suffix)"

text \<open>\<open>fileName.replace(/\.(xlsx|xls)$/i, '').split(' ')[0]\<close>.\<close>

definition extractEmployeeName :: "string \<Rightarrow> string" where
  "extractEmployeeName fileName =
    (let nameWithoutExt =
           (if endsWithCI fileName ''.xlsx'' then take (length fileName - 5) fileName
            else if endsWithCI fileName ''.xls'' then take (length fileName - 4) fileName
            else fileName)
     in takeWhile (\<lambda>c. c \<noteq> CHR '' '') nameWithoutExt)"

text \<open>
  The files behind \<open>fetch\<close>: whether a \<open>HEAD\<close> request for a path answers ok, and the
  rows of the first sheet that a \<open>GET\<close> and the decoding give, \<open>None\<close> when the request
  or the decoding fails (the source throws there). Every request is logged.
\<close>

record world =
  headOk :: "string \<Rightarrow> bool"
  readSheet :: "string \<Rightarrow> row list option"

datatype request = HEAD string | GET string

definition fileExists :: "world \<Rightarrow> string \<Rightarrow> bool" where
  "fileExists w filePath = headOk w filePath"

text \<open>\<open>processExcelFile\<close>: \<open>None\<close> when it throws (the caller catches and goes on).\<close>

definition processExcelFile :: "host \<Rightarrow> world \<Rightarrow> string \<Rightarrow> string \<Rightarrow> ExcelEmployeeData option" where
  "processExcelFile h w filePath fileName =
    (let employeeName = extractEmployeeName fileName
     in case readSheet w filePath of
          None \<Rightarrow> None
        | Some jsonData \<Rightarrow>
            Some (foldl
                    (\<lambda>employeeData r.
                       case parseExcelRow h r of
                         None \<Rightarrow> employeeData
                       | Some rc \<Rightarrow> addRecord employeeData rc)
                    \<lparr>name = employeeName, totalPoints = 0, totalRecords = 0, records = [],
                     monthlyData = [], weeklyData = []\<rparr>
                    jsonData))"

text \<open>
  The two \<open>Object.entries(...).forEach\<close> loops of \<open>mergeEmployeeData\<close>: every bucket
  of the incoming aggregate is added to the bucket of the same label.
\<close>

definition mergeBuckets ::
  "(string \<times> Bucket) list \<Rightarrow> (string \<times> Bucket) list \<Rightarrow> (string \<times> Bucket) list" where
  "mergeBuckets incoming existing =
    foldl (\<lambda>acc kd. addToBucket (fst kd) (bucketPoints (snd kd)) (bucketRecords (snd kd)) acc)
      existing incoming"

definition mergeEmployeeData :: "ExcelFolderData \<Rightarrow> ExcelEmployeeData \<Rightarrow> ExcelFolderData" where
  "mergeEmployeeData result employeeData =
    (case map_of (employees result) (name employeeData) of
       None \<Rightarrow>
         result\<lparr>employees :=
           AList.update (name employeeData) employeeData (employees result)\<rparr>
     | Some existing \<Rightarrow>
         result\<lparr>employees :=
           AList.update (name employeeData)
             (existing
                \<lparr>totalPoints := totalPoints existing + totalPoints employeeData,
                 totalRecords := totalRecords existing + totalRecords employeeData,
                 records := records existing @ records employeeData,
                 monthlyData := mergeBuckets (monthlyData employeeData) (monthlyData existing),
                 weeklyData := mergeBuckets (weeklyData employeeData) (weeklyData existing)\<rparr>)
             (employees result)\<rparr>)"

definition calculateFinalStatistics :: "ExcelFolderData \<Rightarrow> ExcelFolderData" where
  "calculateFinalStatistics result =
    (let st0 = (statistics result)\<lparr>totalEmployees := length (employees result)\<rparr>;
         st1 = foldl
                 (\<lambda>st employee.
                    st\<lparr>folderTotalRecords := folderTotalRecords st + totalRecords employee,
                       folderTotalPoints := folderTotalPoints st + totalPoints employee\<rparr>)
                 st0 (map snd (employees result))
     in result\<lparr>statistics := st1\<lparr>totalProfit := folderTotalPoints st1 * POINT_VALUE\<rparr>\<rparr>)"

definition folders :: "string list" where
  "folders = [''mes 4'', ''mes 5'', ''mes 6'', ''mes 7'']"

definition Mauricio :: string where
  "Mauricio = ''Maur'' @ [CHR 0xC3, CHR 0xAD] @ ''cio''"

definition getFilesInFolder :: "string \<Rightarrow> string list" where
  "getFilesInFolder folder =
    (if folder = ''mes 4''
     then [''Matheus Abril.xlsx'', Mauricio @ '' Abril.xlsx'', ''Rodrigo Abril.xlsx'']
     else if folder = ''mes 5''
     then [''Matheus Maio.xlsx'', Mauricio @ '' Maio.xlsx'', ''Wesley Maio.xlsx'']
     else if folder = ''mes 6''
     then [''Matheus Junho.xlsx'', Mauricio @ '' Junho.xlsx'', ''Wesley Junho.xlsx'']
     else if folder = ''mes 7''
     then [''Matheus Julho.xlsx'', Mauricio @ '' Julho.xlsx'', ''Wesley Julho.xlsx'']
     else [])"

definition filePathOf :: "string \<Rightarrow> string \<Rightarrow> string" where
  "filePathOf folder fileName = ''registros monitorar/'' @ folder @ ''/'' @ fileName"

text \<open>One file of the inner loop of \<open>readRegistrosFolder\<close>, with its \<open>try\<close> and \<open>catch\<close>.\<close>

definition processFile ::
  "host \<Rightarrow> world \<Rightarrow> string \<Rightarrow> ExcelFolderData \<times> request list \<Rightarrow> string
    \<Rightarrow> ExcelFolderData \<times> request list" where
  "processFile h w folder acc fileName =
    (case acc of (result, reqs) \<Rightarrow>
       let filePath = filePathOf folder fileName
       in if fileExists w filePath
          then (case processExcelFile h w filePath fileName of
                  None \<Rightarrow> (result, reqs @ [HEAD filePath, GET filePath])
                | Some employeeData \<Rightarrow>
                    (let merged = mergeEmployeeData result employeeData
                     in merged\<lparr>statistics :=
                          (statistics merged)\<lparr>totalFiles := totalFiles (statistics merged) + 1\<rparr>\<rparr>,
                     reqs @ [HEAD filePath, GET filePath]))
          else (result, reqs @ [HEAD filePath]))"

definition emptyResult :: "int \<Rightarrow> ExcelFolderData" where
  "emptyResult now =
    \<lparr>employees = [],
     statistics = \<lparr>totalFiles = 0, totalEmployees = 0, folderTotalRecords = 0,
                   folderTotalPoints = 0, totalProfit = 0\<rparr>,
     lastProcessed = now\<rparr>"

text \<open>
  The body of the \<open>try\<close> block of \<open>readRegistrosFolder\<close>: both loops over the catalogue
  and the final statistics. It has no branch that throws: every failure of a file is
  caught inside the inner loop.
\<close>

definition ingest :: "host \<Rightarrow> world \<Rightarrow> int \<Rightarrow> ExcelFolderData \<times> request list" where
  "ingest h w now =
    (case foldl (\<lambda>acc folder. foldl (processFile h w folder) acc (getFilesInFolder folder))
            (emptyResult now, []) folders of
       (result, reqs) \<Rightarrow> (calculateFinalStatistics result, reqs))"

text \<open>
  The paths of the catalogue in processing order, and the requests that one of them
  costs a full run: the \<open>HEAD\<close>, and the \<open>GET\<close> when the \<open>HEAD\<close> answered ok.
\<close>

definition cataloguePaths :: "string list" where
  "cataloguePaths =
    concat (map (\<lambda>folder. map (filePathOf folder) (getFilesInFolder folder)) folders)"

definition requestsFor :: "world \<Rightarrow> string \<Rightarrow> request list" where
  "requestsFor w filePath = HEAD filePath # (if headOk w filePath then [GET filePath] else [])"

section \<open>ExcelFolderReader: the cache and the public reads\<close>

text \<open>What a \<open>throw\<close> hands over: an \<open>Error\<close> with its message.\<close>

datatype error = Error string

record cache =
  cachedData :: "ExcelFolderData option"
  lastCacheTime :: int

definition clearCache :: "cache \<Rightarrow> cache" where
  "clearCache st = \<lparr>cachedData = None, lastCacheTime = 0\<rparr>"

text \<open>
  The control of \<open>readRegistrosFolder\<close> around its \<open>try\<close> block, for any outcome of
  the block: \<open>Inl e\<close> when the block throws \<open>e\<close> (the \<open>catch\<close> logs and rethrows; the cache
  is assigned only after the block is through), \<open>Inr result\<close> when it completes. The
  result is the returned value or the thrown error, the cache afterwards and the
  requests made.
\<close>

definition readRegistrosFolderWith ::
  "(error + ExcelFolderData) \<times> request list \<Rightarrow> int \<Rightarrow> cache
    \<Rightarrow> (error + ExcelFolderData) \<times> cache \<times> request list" where
  "readRegistrosFolderWith block now st =
    (let fresh =
           (case block of
              (Inl e, reqs) \<Rightarrow> (Inl e, st, reqs)
            | (Inr result, reqs) \<Rightarrow>
                (Inr result, \<lparr>cachedData = Some result, lastCacheTime = now\<rparr>, reqs))
     in case cachedData st of
          None \<Rightarrow> fresh
        | Some cached \<Rightarrow>
            if now - lastCacheTime st < CACHE_DURATION then (Inr cached, st, []) else fresh)"

definition readRegistrosFolder ::
  "host \<Rightarrow> world \<Rightarrow> int \<Rightarrow> cache \<Rightarrow> (error + ExcelFolderData) \<times> cache \<times> request list" where
  "readRegistrosFolder h w now st =
    readRegistrosFolderWith (case ingest h w now of (result, reqs) \<Rightarrow> (Inr result, reqs)) now st"









section \<open>The statistics in the specification's words, and examples\<close>






text \<open>
  Files for the examples: the April sheet of Matheus with three rows (the third without
  points), his May sheet with one row, his June file present but unreadable, and no
  other file.
\<close>

definition worldExample :: world where
  "worldExample =
    \<lparr>headOk = (\<lambda>p. p = ''registros monitorar/mes 4/Matheus Abril.xlsx''
                 \<or> p = ''registros monitorar/mes 5/Matheus Maio.xlsx''
                 \<or> p = ''registros monitorar/mes 6/Matheus Junho.xlsx''),
     readSheet = (\<lambda>p.
       if p = ''registros monitorar/mes 4/Matheus Abril.xlsx''
       then Some [[(''Data'', CStr ''20/04/2024''), (''Pontos'', CNum 10)],
                  [(''Data'', CStr ''27/04/2024''), (''Pontos'', CStr ''5'')],
                  [(''Data'', CStr ''28/04/2024''), (''Pontos'', CStr ''0'')]]
       else if p = ''registros monitorar/mes 5/Matheus Maio.xlsx''
       then Some [[(''Data'', CStr ''02/05/2024''), (''Pontos'', CNum 8)]]
       else None)\<rparr>"

section \<open>The aggregate invariant in the specification's words\<close>






text \<open>
  What \<open>mergeEmployeeData\<close> does to the bucket under one label: nothing when the incoming
  aggregate has no bucket there, and otherwise the incoming bucket is added to the existing
  one, or to a fresh bucket at zero when the label is new.
\<close>

definition addBuckets :: "Bucket option \<Rightarrow> Bucket option \<Rightarrow> Bucket option" where
  "addBuckets x y =
    (case y of
       None \<Rightarrow> x
     | Some d \<Rightarrow>
         Some \<lparr>bucketPoints = (case x of None \<Rightarrow> 0 | Some b \<Rightarrow> bucketPoints b) + bucketPoints d,
               bucketRecords = (case x of None \<Rightarrow> 0 | Some b \<Rightarrow> bucketRecords b) + bucketRecords d\<rparr>)"

text \<open>
  The aggregate of the file \<open>Matheus Abril.xlsx\<close> of \<open>worldExample\<close>, read in the zone
  UTC, and the invariant for every employee of a folder aggregate.
\<close>

definition aprilAggregate :: ExcelEmployeeData where
  "aprilAggregate =
    \<lparr>name = ''Matheus'', totalPoints = 15, totalRecords = 2,
     records =
       [\<lparr>date = 1713571200000, refinery = [], points = 10, observations = [],
          month = ''Abril'', week = 4\<rparr>,
        \<lparr>date = 1714176000000, refinery = [], points = 5, observations = [],
          month = ''Maio'', week = 1\<rparr>],
     monthlyData =
       [(''Abril'', \<lparr>bucketPoints = 10, bucketRecords = 1\<rparr>),
        (''Maio'', \<lparr>bucketPoints = 5, bucketRecords = 1\<rparr>)],
     weeklyData =
       [(''Semana 4'', \<lparr>bucketPoints = 10, bucketRecords = 1\<rparr>),
        (''Semana 1'', \<lparr>bucketPoints = 5, bucketRecords = 1\<rparr>)]\<rparr>"


section \<open>Facts about the calendar\<close>

lemma doy_range:
  "0 \<le> snd (year_day_of_era doe) \<and> snd (year_day_of_era doe) \<le> 365"
proof -
  define r2 where "r2 = (doe - min 3 (doe div 36524) * 36524) mod 1461"
  have r2: "0 \<le> r2" "r2 \<le> 1460"
    by (simp_all add: r2_def)
  have "0 \<le> r2 - min 3 (r2 div 365) * 365 \<and> r2 - min 3 (r2 div 365) * 365 \<le> 365"
    using r2 by (auto simp: min_def)
  then show ?thesis
    by (simp add: year_day_of_era_def Let_def r2_def)
qed

lemma month_day_range:
  assumes "0 \<le> doy" "doy \<le> 365"
  shows "1 \<le> fst (month_day_of_year doy) \<and> fst (month_day_of_year doy) \<le> 12
     \<and> 1 \<le> snd (month_day_of_year doy) \<and> snd (month_day_of_year doy) \<le> 31"
proof -
  define mp where "mp = (5 * doy + 2) div 153"
  have mp: "0 \<le> mp" "mp \<le> 11"
    using assms unfolding mp_def by linarith+
  have d: "1 \<le> doy - (153 * mp + 2) div 5 + 1" "doy - (153 * mp + 2) div 5 + 1 \<le> 31"
    using assms unfolding mp_def by linarith+
  show ?thesis
    using mp d by (simp add: month_day_of_year_def Let_def mp_def [symmetric])
qed

lemma civil_from_days_range:
  "1 \<le> fst (snd (civil_from_days n)) \<and> fst (snd (civil_from_days n)) \<le> 12
   \<and> 1 \<le> snd (snd (civil_from_days n)) \<and> snd (snd (civil_from_days n)) \<le> 31"
proof -
  obtain yoe doy where yd: "year_day_of_era ((n + 719468) mod 146097) = (yoe, doy)"
    by (cases "year_day_of_era ((n + 719468) mod 146097)") auto
  obtain m d where md: "month_day_of_year doy = (m, d)"
    by (cases "month_day_of_year doy") auto
  have "0 \<le> doy \<and> doy \<le> 365"
    using doy_range [of "(n + 719468) mod 146097"] yd by simp
  then have "1 \<le> m \<and> m \<le> 12 \<and> 1 \<le> d \<and> d \<le> 31"
    using month_day_range [of doy] md by simp
  then show ?thesis
    by (simp add: civil_from_days_def Let_def yd md)
qed









lemma getDate_range: "1 \<le> getDate tz t \<and> getDate tz t \<le> 31"
  using civil_from_days_range [of "Day (LocalTime tz t)"] by (simp add: getDate_def)

lemma getMonth_range: "0 \<le> getMonth tz t \<and> getMonth tz t \<le> 11"
  using civil_from_days_range [of "Day (LocalTime tz t)"] by (simp add: getMonth_def)

lemma getMonthFromDate_index:
  "0 \<le> (if getDate tz t \<ge> 26
          then (if getMonth tz t + 1 + 1 > 12 then 1 else getMonth tz t + 1 + 1)
          else getMonth tz t + 1) - 1
   \<and> nat ((if getDate tz t \<ge> 26
          then (if getMonth tz t + 1 + 1 > 12 then 1 else getMonth tz t + 1 + 1)
          else getMonth tz t + 1) - 1) < length monthNames"
  using getMonth_range [of tz t] by (auto simp: monthNames_def)

section \<open>Facts about the week of the cycle\<close>

lemma div_days_weeks: "(a::int) div msPerDay div 7 = a div (7 * msPerDay)"
  by (simp add: msPerDay_def div_mult2_eq)

lemma getWeekFromDate_eq:
  assumes "parseISODate s = Some d"
  shows "getWeekFromDate tz s = Some (weekOfCycle tz d)"
proof -
  have cs: "(case (if getDate tz d \<ge> 26 then (getFullYear tz d, getMonth tz d + 1)
                else if getMonth tz d + 1 - 1 < 1 then (getFullYear tz d - 1, 12)
                else (getFullYear tz d, getMonth tz d + 1 - 1)) of
              (cycleYear, cycleMonth) \<Rightarrow> newDate tz cycleYear (cycleMonth - 1) 26)
            = cycleStart tz d"
    using getMonth_range [of tz d] by (auto simp: cycleStart_def)
  have "getWeekFromDate tz s =
      Some (min (max ((d - cycleStart tz d) div msPerDay div 7 + 1) 1) 5)"
    using assms cs [symmetric]
    by (simp add: getWeekFromDate_def Let_def split: prod.splits if_splits)
  then show ?thesis
    by (simp add: weekOfCycle_def div_days_weeks min_def max_def)
qed

lemma weekOfCycle_range: "1 \<le> weekOfCycle tz d \<and> weekOfCycle tz d \<le> 5"
  by (simp add: weekOfCycle_def)


text \<open>The ISO date of a time value always parses: the week of a record is a number.\<close>

lemma parseISODate_toISODate: "\<exists>d. parseISODate (toISODate t) = Some d"
  using civil_from_days_range [of "Day t"]
  by (cases "civil_from_days (Day t)") (auto simp: parseISODate_def toISODate_def)

lemma getWeekFromDate_toISODate:
  "\<exists>w. getWeekFromDate tz (toISODate t) = Some w \<and> 1 \<le> w \<and> w \<le> 5"
proof -
  obtain d where "parseISODate (toISODate t) = Some d"
    using parseISODate_toISODate by blast
  then show ?thesis
    using getWeekFromDate_eq [of "toISODate t" d tz] weekOfCycle_range [of tz d] by simp
qed

section \<open>Local dates built by the constructor\<close>

lemma local_day_newDate: "Day (LocalTime tz (newDate tz y m d)) = MakeDay (if 0 \<le> y \<and> y \<le> 99 then 1900 + y else y) m d"
  by (simp add: Day_def LocalTime_def newDate_def msPerDay_def)

lemma april_26_2024:
  "getDate tz (newDate tz 2024 3 26) = 26"
  "getMonth tz (newDate tz 2024 3 26) = 3"
  "getFullYear tz (newDate tz 2024 3 26) = 2024"
  unfolding getDate_def getMonth_def getFullYear_def local_day_newDate by code_simp+


section \<open>Facts about rows and their dates\<close>

lemma findColumnValue_absent: "findColumnValue r names = CNull \<longleftrightarrow> absent r names"
  by (induction names) (auto simp: absent_def split: option.splits)

lemma not_truthy_CNull: "\<not> truthy CNull"
  by (simp add: truthy_def)

lemma parseExcelRow_Some:
  "parseExcelRow h r = Some rc \<Longrightarrow>
     truthy (findColumnValue r dateNames)
     \<and> parseFloatCell (findColumnValue r pointsNames) = Some (points rc)
     \<and> 0 < points rc
     \<and> parseExcelDate h (findColumnValue r dateNames) = Some (Some (date rc))
     \<and> month rc = getMonthFromDate (tzOffset h) (date rc)
     \<and> getWeekFromDate (tzOffset h) (toISODate (date rc)) = Some (week rc)"
  by (auto simp: parseExcelRow_def Let_def split: if_splits option.splits)

lemma parseExcelRow_complete:
  assumes "truthy (findColumnValue r dateNames)"
    and "parseFloatCell (findColumnValue r pointsNames) = Some p" and "0 < p"
    and "parseExcelDate h (findColumnValue r dateNames) = Some (Some t)"
  shows "\<exists>rc. parseExcelRow h r = Some rc \<and> points rc = p \<and> date rc = t"
proof -
  obtain w where "getWeekFromDate (tzOffset h) (toISODate t) = Some w"
    using getWeekFromDate_toISODate by blast
  then show ?thesis
    using assms by (simp add: parseExcelRow_def Let_def)
qed






lemma ToInteger_near: "\<bar>of_int (ToInteger x) - x\<bar> < 1"
  unfolding ToInteger_def by (auto; linarith)


lemma excelEpoch_midnight: "LocalTime tz (excelEpoch tz) mod msPerDay = 0"
  by (simp add: excelEpoch_def newDate_def LocalTime_def)


text \<open>
  The week of a record is computed from the date-only text of \<open>toISOString\<close>, which
  \<open>getWeekFromDate\<close> reads back as midnight UTC, while the month is computed from the
  local date itself. West of UTC the two disagree on the day: at three hours behind UTC the
  row dated 26/04/2024 gets the month of the new cycle and the last week of the old one.
\<close>

lemma row_west_of_UTC:
  "map_option (\<lambda>rc. (date rc, month rc, week rc))
     (parseExcelRow (hostUTC\<lparr>tzOffset := - 10800000\<rparr>)
        [(''Data'', CStr ''26/04/2024''), (''Pontos'', CNum 10)])
     = Some (1714100400000, ''Maio'', 5)
   \<and> map_option (\<lambda>rc. (date rc, month rc, week rc))
     (parseExcelRow hostUTC [(''Data'', CStr ''26/04/2024''), (''Pontos'', CNum 10)])
     = Some (1714089600000, ''Maio'', 1)"
  by code_simp

section \<open>Facts about the cache and the requests\<close>

lemma processFile_requests:
  "snd (processFile h w folder (result, reqs) fileName)
     = reqs @ requestsFor w (filePathOf folder fileName)"
  by (simp add: processFile_def requestsFor_def filePathOf_def fileExists_def Let_def
      split: option.splits)

lemma files_requests:
  "snd (foldl (processFile h w folder) (result, reqs) fileNames)
     = reqs @ concat (map (\<lambda>f. requestsFor w (filePathOf folder f)) fileNames)"
proof (induction fileNames arbitrary: result reqs)
  case Nil
  then show ?case by simp
next
  case (Cons f fs)
  obtain result' reqs' where p: "processFile h w folder (result, reqs) f = (result', reqs')"
    by (cases "processFile h w folder (result, reqs) f") auto
  have "reqs' = reqs @ requestsFor w (filePathOf folder f)"
    using processFile_requests [of h w folder result reqs f] p by simp
  then show ?case
    using Cons.IH [of result' reqs'] p by simp
qed

lemma folders_requests:
  "snd (foldl (\<lambda>acc folder. foldl (processFile h w folder) acc (getFilesInFolder folder))
          (result, reqs) fs)
     = reqs @ concat (map (requestsFor w)
         (concat (map (\<lambda>folder. map (filePathOf folder) (getFilesInFolder folder)) fs)))"
proof (induction fs arbitrary: result reqs)
  case Nil
  then show ?case by simp
next
  case (Cons f fs)
  obtain result' reqs' where
    p: "foldl (processFile h w f) (result, reqs) (getFilesInFolder f) = (result', reqs')"
    by (cases "foldl (processFile h w f) (result, reqs) (getFilesInFolder f)") auto
  have "reqs' = reqs @ concat (map (\<lambda>x. requestsFor w (filePathOf f x)) (getFilesInFolder f))"
    using files_requests [of h w f result reqs "getFilesInFolder f"] p by simp
  then show ?case
    using Cons.IH [of result' reqs'] p by (simp add: comp_def)
qed

lemma ingest_requests:
  "snd (ingest h w now) = concat (map (requestsFor w) cataloguePaths)"
  using folders_requests [of h w "emptyResult now" "[]" folders]
  by (auto simp: ingest_def cataloguePaths_def split: prod.splits)

lemma length_cataloguePaths: "length cataloguePaths = 12"
  by code_simp

lemma readRegistrosFolder_hit:
  assumes "cachedData st = Some c" "now - lastCacheTime st < CACHE_DURATION"
  shows "readRegistrosFolderWith block now st = (Inr c, st, [])"
  using assms by (simp add: readRegistrosFolderWith_def Let_def)

lemma readRegistrosFolder_miss:
  assumes "cachedData st = None \<or> \<not> now - lastCacheTime st < CACHE_DURATION"
  shows "readRegistrosFolderWith (Inr result, reqs) now st
      = (Inr result, \<lparr>cachedData = Some result, lastCacheTime = now\<rparr>, reqs)"
    and "readRegistrosFolderWith (Inl e, reqs) now st = (Inl e, st, reqs)"
  using assms by (auto simp: readRegistrosFolderWith_def Let_def split: option.splits)


lemma ingest_block:
  "(case ingest h w now of (result, reqs) \<Rightarrow> (Inr result, reqs))
     = (Inr (fst (ingest h w now)), snd (ingest h w now))"
  by (simp split: prod.splits)

section \<open>Facts about the statistics\<close>





lemma Math_round_near: "\<bar>of_int (Math_round x) - x\<bar> \<le> 1 / 2"
  unfolding Math_round_def by linarith


section \<open>Facts about the aggregates and the merge\<close>





lemma map_of_addToBucket:
  "map_of (addToBucket k p n bs) label =
     (if label = k
      then addBuckets (map_of bs k) (Some \<lparr>bucketPoints = p, bucketRecords = n\<rparr>)
      else map_of bs label)"
  by (cases "map_of bs k")
    (simp_all add: addToBucket_def Let_def map_of_map_entry update_conv' addBuckets_def)


lemma mergeBuckets_Cons:
  "mergeBuckets (kd # incoming) existing
     = mergeBuckets incoming
         (addToBucket (fst kd) (bucketPoints (snd kd)) (bucketRecords (snd kd)) existing)"
  by (simp add: mergeBuckets_def)


lemma map_of_mergeBuckets:
  "distinct (map fst incoming) \<Longrightarrow>
     map_of (mergeBuckets incoming existing) label
       = addBuckets (map_of existing label) (map_of incoming label)"
proof (induction incoming arbitrary: existing)
  case Nil
  then show ?case by (simp add: mergeBuckets_def addBuckets_def)
next
  case (Cons kd incoming)
  have k: "map_of incoming (fst kd) = None"
    using Cons.prems by (simp add: map_of_eq_None_iff)
  have d: "distinct (map fst incoming)"
    using Cons.prems by simp
  show ?case
    unfolding mergeBuckets_Cons Cons.IH [OF d] map_of_addToBucket
    using k by (cases kd) (auto simp: addBuckets_def)
qed






















section \<open>The claims\<close>

text \<open>
  C1. For every valid date, the day of the month lies in 1..31 and the month in
  January..December, and the label that the record pipeline's classifier computes is the
  name of the next calendar month when the day is 26 or later (December wraps to
  January, the first name) and the name of the current calendar month when the day is
  25 or earlier.
\<close>

theorem C1_month_label:
  "1 \<le> getDate tz d \<and> getDate tz d \<le> 31 \<and> 0 \<le> getMonth tz d \<and> getMonth tz d \<le> 11
   \<and> getMonthFromDate tz d =
       (if 26 \<le> getDate tz d
        then monthNames ! nat ((getMonth tz d + 1) mod 12)
        else monthNames ! nat (getMonth tz d))"
proof -
  have r: "0 \<le> getMonth tz d" "getMonth tz d \<le> 11"
    using getMonth_range [of tz d] by simp_all
  have nxt: "(if getMonth tz d + 1 + 1 > 12 then 1 else getMonth tz d + 1 + 1) - 1
      = (getMonth tz d + 1) mod 12"
    using r by presburger
  have "getMonthFromDate tz d =
       (if 26 \<le> getDate tz d
        then monthNames ! nat ((getMonth tz d + 1) mod 12)
        else monthNames ! nat (getMonth tz d))"
    unfolding getMonthFromDate_def Let_def using nxt by simp
  then show ?thesis
    using r getDate_range [of tz d] by simp
qed



text \<open>
  C5. The row parser returns no record when the date field is absent, when the points
  field is absent, when the points are not a number, when they are zero or negative, and
  when the date value parses to nothing or to an invalid date. So every record that it
  returns has points above zero.
\<close>

theorem C5_row_skips:
  "(absent r dateNames \<longrightarrow> parseExcelRow h r = None)
   \<and> (absent r pointsNames \<longrightarrow> parseExcelRow h r = None)
   \<and> (parseFloatCell (findColumnValue r pointsNames) = None \<longrightarrow> parseExcelRow h r = None)
   \<and> (\<forall>p. parseFloatCell (findColumnValue r pointsNames) = Some p \<and> p \<le> 0
         \<longrightarrow> parseExcelRow h r = None)
   \<and> (parseExcelDate h (findColumnValue r dateNames) = None \<longrightarrow> parseExcelRow h r = None)
   \<and> (parseExcelDate h (findColumnValue r dateNames) = Some None \<longrightarrow> parseExcelRow h r = None)
   \<and> (\<forall>rc. parseExcelRow h r = Some rc \<longrightarrow> 0 < points rc)"
proof -
  have 1: "absent r dateNames \<longrightarrow> parseExcelRow h r = None"
    using findColumnValue_absent [of r dateNames] not_truthy_CNull
    by (auto simp: parseExcelRow_def Let_def)
  have 2: "absent r pointsNames \<longrightarrow> parseExcelRow h r = None"
    using findColumnValue_absent [of r pointsNames]
    by (auto simp: parseExcelRow_def Let_def parseFloatCell_def)
  have 3: "parseFloatCell (findColumnValue r pointsNames) = None \<longrightarrow> parseExcelRow h r = None"
    by (auto simp: parseExcelRow_def Let_def)
  have 4: "\<forall>p. parseFloatCell (findColumnValue r pointsNames) = Some p \<and> p \<le> 0
         \<longrightarrow> parseExcelRow h r = None"
    by (auto simp: parseExcelRow_def Let_def)
  have 5: "parseExcelDate h (findColumnValue r dateNames) = None \<longrightarrow> parseExcelRow h r = None"
    "parseExcelDate h (findColumnValue r dateNames) = Some None \<longrightarrow> parseExcelRow h r = None"
    by (auto simp: parseExcelRow_def Let_def)
  have 6: "\<forall>rc. parseExcelRow h r = Some rc \<longrightarrow> 0 < points rc"
    using parseExcelRow_Some by blast
  show ?thesis using 1 2 3 4 5 6 by blast
qed

theorem C5_row_skips_witness:
  "parseExcelRow hostUTC [(''Pontos'', CNum 10)] = None
   \<and> parseExcelRow hostUTC [(''Data'', CStr ''20/04/2024'')] = None
   \<and> parseExcelRow hostUTC [(''Data'', CStr ''20/04/2024''), (''Pontos'', CStr ''abc'')] = None
   \<and> parseExcelRow hostUTC [(''Data'', CStr ''20/04/2024''), (''Pontos'', CStr ''-5'')] = None
   \<and> parseExcelRow hostUTC [(''Data'', CStr ''20/04/2024''), (''Pontos'', CStr ''0'')] = None
   \<and> parseExcelRow hostUTC [(''Data'', CStr ''amanha''), (''Pontos'', CNum 10)] = None
   \<and> parseExcelRow hostUTC [(''Data'', CDate None), (''Pontos'', CNum 10)] = None
   \<and> (\<exists>rc. parseExcelRow hostUTC [(''Data'', CStr ''20/04/2024''), (''Pontos'', CStr ''10'')]
            = Some rc \<and> 0 < points rc)"
proof -
  have w1: "absent [(''Pontos'', CNum 10)] dateNames"
    by code_simp
  have w2: "absent [(''Data'', CStr ''20/04/2024'')] pointsNames"
    by code_simp
  have w3: "parseFloatCell (findColumnValue
      [(''Data'', CStr ''20/04/2024''), (''Pontos'', CStr ''abc'')] pointsNames) = None"
    by code_simp
  have w4: "parseFloatCell (findColumnValue
      [(''Data'', CStr ''20/04/2024''), (''Pontos'', CStr ''-5'')] pointsNames) = Some (-5)"
    by code_simp
  have w5: "parseFloatCell (findColumnValue
      [(''Data'', CStr ''20/04/2024''), (''Pontos'', CStr ''0'')] pointsNames) = Some 0"
    by code_simp
  have w6: "parseExcelDate hostUTC (findColumnValue
      [(''Data'', CStr ''amanha''), (''Pontos'', CNum 10)] dateNames) = None"
    by code_simp
  have w7: "parseExcelDate hostUTC (findColumnValue
      [(''Data'', CDate None), (''Pontos'', CNum 10)] dateNames) = Some None"
    by code_simp
  have w8: "parseExcelRow hostUTC [(''Data'', CStr ''20/04/2024''), (''Pontos'', CStr ''10'')]
      = Some \<lparr>date = 1713571200000, refinery = [], points = 10, observations = [],
          month = ''Abril'', week = 4\<rparr>"
    by code_simp
  show ?thesis
    using C5_row_skips [of "[(''Pontos'', CNum 10)]" hostUTC] w1
      C5_row_skips [of "[(''Data'', CStr ''20/04/2024'')]" hostUTC] w2
      C5_row_skips [of "[(''Data'', CStr ''20/04/2024''), (''Pontos'', CStr ''abc'')]" hostUTC] w3
      C5_row_skips [of "[(''Data'', CStr ''20/04/2024''), (''Pontos'', CStr ''-5'')]" hostUTC] w4
      C5_row_skips [of "[(''Data'', CStr ''20/04/2024''), (''Pontos'', CStr ''0'')]" hostUTC] w5
      C5_row_skips [of "[(''Data'', CStr ''amanha''), (''Pontos'', CNum 10)]" hostUTC] w6
      C5_row_skips [of "[(''Data'', CDate None), (''Pontos'', CNum 10)]" hostUTC] w7
      C5_row_skips [of "[(''Data'', CStr ''20/04/2024''), (''Pontos'', CStr ''10'')]" hostUTC] w8
    by simp
qed





text \<open>
  C7. A read while a cached aggregate exists and the time since the cache timestamp is
  below the TTL returns the cached aggregate, leaves the cache as it is and makes no
  request at all. A read right after \<open>clearCache\<close> runs the full ingestion: it returns
  the freshly ingested aggregate, stores it with the time of the read, and has issued a
  \<open>HEAD\<close> request for each of the twelve files of the catalogue and a \<open>GET\<close> for each
  that answered. So of two consecutive reads, the second within the TTL of the first
  returns the first one's aggregate with zero requests, whatever the files are by then.
\<close>

theorem C7_cache:
  "(cachedData st = Some c \<and> now - lastCacheTime st < CACHE_DURATION
      \<longrightarrow> readRegistrosFolder h w now st = (Inr c, st, []))
   \<and> readRegistrosFolder h w now (clearCache st)
       = (Inr (fst (ingest h w now)),
          \<lparr>cachedData = Some (fst (ingest h w now)), lastCacheTime = now\<rparr>,
          concat (map (requestsFor w) cataloguePaths))
   \<and> (now' - now < CACHE_DURATION
      \<longrightarrow> readRegistrosFolder h w' now'
            \<lparr>cachedData = Some (fst (ingest h w now)), lastCacheTime = now\<rparr>
          = (Inr (fst (ingest h w now)),
             \<lparr>cachedData = Some (fst (ingest h w now)), lastCacheTime = now\<rparr>, []))
   \<and> length cataloguePaths = 12
   \<and> length (concat (map (requestsFor w) cataloguePaths)) \<ge> 12"
proof -
  have 1: "cachedData st = Some c \<and> now - lastCacheTime st < CACHE_DURATION
      \<longrightarrow> readRegistrosFolder h w now st = (Inr c, st, [])"
    by (simp add: readRegistrosFolder_def readRegistrosFolder_hit)
  have 2: "readRegistrosFolder h w now (clearCache st)
       = (Inr (fst (ingest h w now)),
          \<lparr>cachedData = Some (fst (ingest h w now)), lastCacheTime = now\<rparr>,
          concat (map (requestsFor w) cataloguePaths))"
    unfolding readRegistrosFolder_def ingest_block
    by (simp add: clearCache_def ingest_requests readRegistrosFolder_miss(1))
  have 3: "now' - now < CACHE_DURATION
      \<longrightarrow> readRegistrosFolder h w' now'
            \<lparr>cachedData = Some (fst (ingest h w now)), lastCacheTime = now\<rparr>
          = (Inr (fst (ingest h w now)),
             \<lparr>cachedData = Some (fst (ingest h w now)), lastCacheTime = now\<rparr>, [])"
    by (simp add: readRegistrosFolder_def readRegistrosFolder_hit)
  have "length (concat (map (requestsFor w) ps)) \<ge> length ps" for ps
    by (induction ps) (simp_all add: requestsFor_def)
  then have 4: "length (concat (map (requestsFor w) cataloguePaths)) \<ge> 12"
    using length_cataloguePaths by metis
  show ?thesis
    using 1 2 3 4 length_cataloguePaths by simp
qed

theorem C7_cache_witness:
  "readRegistrosFolder hostUTC worldExample 60000
       \<lparr>cachedData = Some (emptyResult 0), lastCacheTime = 0\<rparr>
     = (Inr (emptyResult 0),
        \<lparr>cachedData = Some (emptyResult 0), lastCacheTime = 0\<rparr>, [])
   \<and> readRegistrosFolder hostUTC worldExample 100000
       \<lparr>cachedData = Some (fst (ingest hostUTC worldExample 60000)), lastCacheTime = 60000\<rparr>
     = (Inr (fst (ingest hostUTC worldExample 60000)),
        \<lparr>cachedData = Some (fst (ingest hostUTC worldExample 60000)), lastCacheTime = 60000\<rparr>,
        [])
   \<and> length (snd (snd (readRegistrosFolder hostUTC worldExample 60000
         (clearCache \<lparr>cachedData = Some (emptyResult 0), lastCacheTime = 0\<rparr>)))) = 15"
proof -
  have n: "length (concat (map (requestsFor worldExample) cataloguePaths)) = 15"
    by code_simp
  show ?thesis
    using C7_cache [of "\<lparr>cachedData = Some (emptyResult 0), lastCacheTime = 0\<rparr>"
        "emptyResult 0" 60000 hostUTC worldExample 100000 worldExample] n
    by (simp add: CACHE_DURATION_def)
qed











text \<open>
  C4. Merging is plain addition, without deduplication. For an aggregate \<open>a\<close> (its bucket
  objects having pairwise distinct keys, as every object has): merging \<open>a\<close> into the empty
  folder aggregate stores \<open>a\<close> itself, and merging it a second time yields one entity with
  twice the \<open>totalPoints\<close> and \<open>totalRecords\<close> of \<open>a\<close>, the records of \<open>a\<close> twice in a
  row, and under every label of \<open>a\<close> a bucket with twice its points and records, and no
  other bucket. In the source the second merge adds the stored object to itself; the values
  it ends with are these. For a merge into an existing entity, the totals add, the records
  of \<open>a\<close> are appended after the existing ones in their order, and under every label the
  monthly and the weekly bucket are \<open>addBuckets\<close> of the existing and the incoming one:
  unchanged when \<open>a\<close> has no bucket there, the sum of both when both have one, and zero
  plus the incoming bucket when the label is new. An entity whose name is new is stored
  as it is, and every other employee of the folder aggregate is left as it was.
\<close>

theorem C4_merge:
  "(distinct (map fst (monthlyData a)) \<and> distinct (map fst (weeklyData a))
      \<longrightarrow> employees (mergeEmployeeData (emptyResult now) a) = [(name a, a)]
        \<and> (\<exists>a2. employees (mergeEmployeeData (mergeEmployeeData (emptyResult now) a) a)
                   = [(name a, a2)]
              \<and> totalPoints a2 = 2 * totalPoints a
              \<and> totalRecords a2 = 2 * totalRecords a
              \<and> records a2 = records a @ records a
              \<and> (\<forall>label. map_of (monthlyData a2) label
                    = (case map_of (monthlyData a) label of
                         None \<Rightarrow> None
                       | Some b \<Rightarrow> Some \<lparr>bucketPoints = 2 * bucketPoints b,
                                         bucketRecords = 2 * bucketRecords b\<rparr>))
              \<and> (\<forall>label. map_of (weeklyData a2) label
                    = (case map_of (weeklyData a) label of
                         None \<Rightarrow> None
                       | Some b \<Rightarrow> Some \<lparr>bucketPoints = 2 * bucketPoints b,
                                         bucketRecords = 2 * bucketRecords b\<rparr>))))
   \<and> (map_of (employees result) (name a) = Some existing
        \<and> distinct (map fst (monthlyData a)) \<and> distinct (map fst (weeklyData a))
      \<longrightarrow> (\<exists>merged. map_of (employees (mergeEmployeeData result a)) (name a) = Some merged
              \<and> name merged = name existing
              \<and> totalPoints merged = totalPoints existing + totalPoints a
              \<and> totalRecords merged = totalRecords existing + totalRecords a
              \<and> records merged = records existing @ records a
              \<and> (\<forall>label. map_of (monthlyData merged) label
                    = addBuckets (map_of (monthlyData existing) label)
                        (map_of (monthlyData a) label))
              \<and> (\<forall>label. map_of (weeklyData merged) label
                    = addBuckets (map_of (weeklyData existing) label)
                        (map_of (weeklyData a) label))))
   \<and> (map_of (employees result) (name a) = None
      \<longrightarrow> map_of (employees (mergeEmployeeData result a)) (name a) = Some a)
   \<and> (\<forall>k. k \<noteq> name a
      \<longrightarrow> map_of (employees (mergeEmployeeData result a)) k = map_of (employees result) k)
   \<and> addBuckets None (Some d)
       = Some \<lparr>bucketPoints = 0 + bucketPoints d, bucketRecords = 0 + bucketRecords d\<rparr>
   \<and> addBuckets (Some b) (Some d)
       = Some \<lparr>bucketPoints = bucketPoints b + bucketPoints d,
               bucketRecords = bucketRecords b + bucketRecords d\<rparr>
   \<and> addBuckets x None = x"
proof -
  let ?m = "\<lambda>e. e\<lparr>totalPoints := totalPoints e + totalPoints a,
       totalRecords := totalRecords e + totalRecords a,
       records := records e @ records a,
       monthlyData := mergeBuckets (monthlyData a) (monthlyData e),
       weeklyData := mergeBuckets (weeklyData a) (weeklyData e)\<rparr>"
  have first: "employees (mergeEmployeeData (emptyResult now) a) = [(name a, a)]"
    by (simp add: mergeEmployeeData_def emptyResult_def)
  have second: "employees (mergeEmployeeData (mergeEmployeeData (emptyResult now) a) a)
      = [(name a, ?m a)]"
    using first by (simp add: mergeEmployeeData_def [of "mergeEmployeeData (emptyResult now) a"])
  have dbl: "addBuckets x x
      = (case x of None \<Rightarrow> None
         | Some b \<Rightarrow> Some \<lparr>bucketPoints = 2 * bucketPoints b,
                           bucketRecords = 2 * bucketRecords b\<rparr>)" for x
    by (cases x) (simp_all add: addBuckets_def)
  have 1: "distinct (map fst (monthlyData a)) \<and> distinct (map fst (weeklyData a))
      \<longrightarrow> employees (mergeEmployeeData (emptyResult now) a) = [(name a, a)]
        \<and> (\<exists>a2. employees (mergeEmployeeData (mergeEmployeeData (emptyResult now) a) a)
                   = [(name a, a2)]
              \<and> totalPoints a2 = 2 * totalPoints a
              \<and> totalRecords a2 = 2 * totalRecords a
              \<and> records a2 = records a @ records a
              \<and> (\<forall>label. map_of (monthlyData a2) label
                    = (case map_of (monthlyData a) label of
                         None \<Rightarrow> None
                       | Some b \<Rightarrow> Some \<lparr>bucketPoints = 2 * bucketPoints b,
                                         bucketRecords = 2 * bucketRecords b\<rparr>))
              \<and> (\<forall>label. map_of (weeklyData a2) label
                    = (case map_of (weeklyData a) label of
                         None \<Rightarrow> None
                       | Some b \<Rightarrow> Some \<lparr>bucketPoints = 2 * bucketPoints b,
                                         bucketRecords = 2 * bucketRecords b\<rparr>)))"
  proof
    assume d: "distinct (map fst (monthlyData a)) \<and> distinct (map fst (weeklyData a))"
    have "totalPoints (?m a) = 2 * totalPoints a \<and> totalRecords (?m a) = 2 * totalRecords a
        \<and> records (?m a) = records a @ records a
        \<and> (\<forall>label. map_of (monthlyData (?m a)) label
              = (case map_of (monthlyData a) label of
                   None \<Rightarrow> None
                 | Some b \<Rightarrow> Some \<lparr>bucketPoints = 2 * bucketPoints b,
                                   bucketRecords = 2 * bucketRecords b\<rparr>))
        \<and> (\<forall>label. map_of (weeklyData (?m a)) label
              = (case map_of (weeklyData a) label of
                   None \<Rightarrow> None
                 | Some b \<Rightarrow> Some \<lparr>bucketPoints = 2 * bucketPoints b,
                                   bucketRecords = 2 * bucketRecords b\<rparr>))"
      using d by (simp add: map_of_mergeBuckets dbl)
    then show "employees (mergeEmployeeData (emptyResult now) a) = [(name a, a)]
        \<and> (\<exists>a2. employees (mergeEmployeeData (mergeEmployeeData (emptyResult now) a) a)
                   = [(name a, a2)]
              \<and> totalPoints a2 = 2 * totalPoints a
              \<and> totalRecords a2 = 2 * totalRecords a
              \<and> records a2 = records a @ records a
              \<and> (\<forall>label. map_of (monthlyData a2) label
                    = (case map_of (monthlyData a) label of
                         None \<Rightarrow> None
                       | Some b \<Rightarrow> Some \<lparr>bucketPoints = 2 * bucketPoints b,
                                         bucketRecords = 2 * bucketRecords b\<rparr>))
              \<and> (\<forall>label. map_of (weeklyData a2) label
                    = (case map_of (weeklyData a) label of
                         None \<Rightarrow> None
                       | Some b \<Rightarrow> Some \<lparr>bucketPoints = 2 * bucketPoints b,
                                         bucketRecords = 2 * bucketRecords b\<rparr>)))"
      using first second by blast
  qed
  have 2: "map_of (employees result) (name a) = Some existing
        \<and> distinct (map fst (monthlyData a)) \<and> distinct (map fst (weeklyData a))
      \<longrightarrow> (\<exists>merged. map_of (employees (mergeEmployeeData result a)) (name a) = Some merged
              \<and> name merged = name existing
              \<and> totalPoints merged = totalPoints existing + totalPoints a
              \<and> totalRecords merged = totalRecords existing + totalRecords a
              \<and> records merged = records existing @ records a
              \<and> (\<forall>label. map_of (monthlyData merged) label
                    = addBuckets (map_of (monthlyData existing) label)
                        (map_of (monthlyData a) label))
              \<and> (\<forall>label. map_of (weeklyData merged) label
                    = addBuckets (map_of (weeklyData existing) label)
                        (map_of (weeklyData a) label)))"
    by (auto simp: mergeEmployeeData_def update_conv' map_of_mergeBuckets)
  have 3: "map_of (employees result) (name a) = None
      \<longrightarrow> map_of (employees (mergeEmployeeData result a)) (name a) = Some a"
    by (simp add: mergeEmployeeData_def update_conv')
  have 4: "\<forall>k. k \<noteq> name a
      \<longrightarrow> map_of (employees (mergeEmployeeData result a)) k = map_of (employees result) k"
    by (simp add: mergeEmployeeData_def update_conv' split: option.splits)
  have 5: "addBuckets None (Some d)
       = Some \<lparr>bucketPoints = 0 + bucketPoints d, bucketRecords = 0 + bucketRecords d\<rparr>"
    "addBuckets (Some b) (Some d)
       = Some \<lparr>bucketPoints = bucketPoints b + bucketPoints d,
               bucketRecords = bucketRecords b + bucketRecords d\<rparr>"
    "addBuckets x None = x"
    by (simp_all add: addBuckets_def)
  show ?thesis
    by (rule conjI [OF 1 conjI [OF 2 conjI [OF 3 conjI [OF 4
          conjI [OF 5(1) conjI [OF 5(2) 5(3)]]]]]])
qed

theorem C4_merge_witness:
  "distinct (map fst (monthlyData aprilAggregate))
   \<and> distinct (map fst (weeklyData aprilAggregate))
   \<and> map_of (employees (emptyResult 0)) (name aprilAggregate) = None
   \<and> map_of (employees (mergeEmployeeData (emptyResult 0) aprilAggregate)) (name aprilAggregate)
       = Some aprilAggregate
   \<and> ''Rodrigo'' \<noteq> name aprilAggregate
   \<and> map (\<lambda>(k, e). (k, totalPoints e, totalRecords e, map points (records e),
            monthlyData e, weeklyData e))
        (employees (mergeEmployeeData (mergeEmployeeData (emptyResult 0) aprilAggregate)
           aprilAggregate))
       = [(''Matheus'', 30, 4, [10, 5, 10, 5],
           [(''Abril'', \<lparr>bucketPoints = 20, bucketRecords = 2\<rparr>),
            (''Maio'', \<lparr>bucketPoints = 10, bucketRecords = 2\<rparr>)],
           [(''Semana 4'', \<lparr>bucketPoints = 20, bucketRecords = 2\<rparr>),
            (''Semana 1'', \<lparr>bucketPoints = 10, bucketRecords = 2\<rparr>)])]
   \<and> (\<exists>a2. employees (mergeEmployeeData (mergeEmployeeData (emptyResult 0) aprilAggregate)
               aprilAggregate) = [(name aprilAggregate, a2)]
         \<and> totalPoints a2 = 2 * totalPoints aprilAggregate
         \<and> totalRecords a2 = 2 * totalRecords aprilAggregate
         \<and> records a2 = records aprilAggregate @ records aprilAggregate)
   \<and> (\<exists>merged. map_of (employees (mergeEmployeeData
               (mergeEmployeeData (emptyResult 0) aprilAggregate) aprilAggregate))
               (name aprilAggregate) = Some merged
         \<and> totalPoints merged = totalPoints aprilAggregate + totalPoints aprilAggregate
         \<and> records merged = records aprilAggregate @ records aprilAggregate
         \<and> (\<forall>label. map_of (monthlyData merged) label
               = addBuckets (map_of (monthlyData aprilAggregate) label)
                   (map_of (monthlyData aprilAggregate) label)))
   \<and> map_of (employees (mergeEmployeeData (emptyResult 0) aprilAggregate)) ''Rodrigo''
       = map_of (employees (emptyResult 0)) ''Rodrigo''"
proof -
  note i = C4_merge [where a = aprilAggregate and now = 0
      and result = "mergeEmployeeData (emptyResult 0) aprilAggregate"
      and existing = aprilAggregate]
  note j = C4_merge [where a = aprilAggregate and now = 0 and result = "emptyResult 0"]
  have d1: "distinct (map fst (monthlyData aprilAggregate))"
    by (simp add: aprilAggregate_def)
  have d2: "distinct (map fst (weeklyData aprilAggregate))"
    by (simp add: aprilAggregate_def)
  have n: "map_of (employees (emptyResult 0)) (name aprilAggregate) = None"
    by (simp add: emptyResult_def)
  have e: "map_of (employees (mergeEmployeeData (emptyResult 0) aprilAggregate))
      (name aprilAggregate) = Some aprilAggregate"
    by (rule mp [OF conjunct1 [OF conjunct2 [OF conjunct2 [OF j]]] n])
  have k: "''Rodrigo'' \<noteq> name aprilAggregate"
    by (simp add: aprilAggregate_def)
  have v: "map (\<lambda>(k, e). (k, totalPoints e, totalRecords e, map points (records e),
            monthlyData e, weeklyData e))
        (employees (mergeEmployeeData (mergeEmployeeData (emptyResult 0) aprilAggregate)
           aprilAggregate))
       = [(''Matheus'', 30, 4, [10, 5, 10, 5],
           [(''Abril'', \<lparr>bucketPoints = 20, bucketRecords = 2\<rparr>),
            (''Maio'', \<lparr>bucketPoints = 10, bucketRecords = 2\<rparr>)],
           [(''Semana 4'', \<lparr>bucketPoints = 20, bucketRecords = 2\<rparr>),
            (''Semana 1'', \<lparr>bucketPoints = 10, bucketRecords = 2\<rparr>)])]"
    by code_simp
  have t: "\<exists>a2. employees (mergeEmployeeData (mergeEmployeeData (emptyResult 0) aprilAggregate)
               aprilAggregate) = [(name aprilAggregate, a2)]
         \<and> totalPoints a2 = 2 * totalPoints aprilAggregate
         \<and> totalRecords a2 = 2 * totalRecords aprilAggregate
         \<and> records a2 = records aprilAggregate @ records aprilAggregate"
    using mp [OF conjunct1 [OF i] conjI [OF d1 d2]] by blast
  have m: "\<exists>merged. map_of (employees (mergeEmployeeData
               (mergeEmployeeData (emptyResult 0) aprilAggregate) aprilAggregate))
               (name aprilAggregate) = Some merged
         \<and> totalPoints merged = totalPoints aprilAggregate + totalPoints aprilAggregate
         \<and> records merged = records aprilAggregate @ records aprilAggregate
         \<and> (\<forall>label. map_of (monthlyData merged) label
               = addBuckets (map_of (monthlyData aprilAggregate) label)
                   (map_of (monthlyData aprilAggregate) label))"
    using mp [OF conjunct1 [OF conjunct2 [OF i]] conjI [OF e conjI [OF d1 d2]]] by blast
  have o: "map_of (employees (mergeEmployeeData (emptyResult 0) aprilAggregate)) ''Rodrigo''
       = map_of (employees (emptyResult 0)) ''Rodrigo''"
    by (rule mp [OF spec [OF conjunct1 [OF conjunct2 [OF conjunct2 [OF conjunct2 [OF j]]]]] k])
  show ?thesis
    by (rule conjI [OF d1 conjI [OF d2 conjI [OF n conjI [OF e conjI [OF k
          conjI [OF v conjI [OF t conjI [OF m o]]]]]]]])
qed


text \<open>
  C10. The two month classifiers disagree on a cycle-boundary date: in every local zone,
  on 26 April 2024 the classifier of the record pipeline gives the name of the next
  calendar month (\<open>Maio\<close>), not that of the current one, while the classifier of the
  upload processor gives the current calendar month (\<open>04/2024\<close>).
\<close>

theorem C10_classifiers_disagree:
  "\<exists>d. getDate tz d = 26 \<and> getMonth tz d + 1 = 4 \<and> getFullYear tz d = 2024
     \<and> getMonthFromDate tz d = monthNames ! nat ((getMonth tz d + 1) mod 12)
     \<and> getMonthFromDate tz d = ''Maio''
     \<and> getMonthFromDate tz d \<noteq> monthNames ! nat (getMonth tz d)
     \<and> ExcelProcessorService_getMonthFromDate tz d
         = padStart2 (intToString (getMonth tz d + 1)) @ ''/'' @ intToString (getFullYear tz d)
     \<and> ExcelProcessorService_getMonthFromDate tz d = ''04/2024''"
proof -
  let ?d = "newDate tz 2024 3 26"
  have m: "getMonthFromDate tz ?d = ''Maio''"
    by (simp add: getMonthFromDate_def Let_def april_26_2024 monthNames_def)
  have e: "ExcelProcessorService_getMonthFromDate tz ?d
      = padStart2 (intToString 4) @ ''/'' @ intToString 2024"
    by (simp add: ExcelProcessorService_getMonthFromDate_def Let_def april_26_2024)
  show ?thesis
    by (rule exI [of _ ?d]) (unfold april_26_2024 m e, code_simp)
qed

end
